theory Spec2Isabelle
  imports Complex_Main "HOL-Library.DAList"
begin

section \<open>The Canvas component of the planner (src/react/canvas\_ux.tsx)\<close>

text \<open>
  The file holds three React function components: \<open>Canvas\<close>, \<open>ConferenceView\<close> and
  \<open>DaysView\<close>. This theory embeds what they compute: the handlers that \<open>Canvas\<close>
  registers in its three mount effects, the event emitters they are registered on, and
  the element trees that \<open>ConferenceView\<close> and \<open>DaysView\<close> return.
\<close>

subsection \<open>JavaScript values read by the handlers\<close>

text \<open>
  \<open>jsval\<close> is the part of the JavaScript value universe that \<open>userId\<close> can hold at
  run time; \<open>nullable\<close> is a reference that may be \<open>undefined\<close> or \<open>null\<close>.
  The loose comparison \<open>x == undefined\<close> of the source holds for both.
\<close>

datatype jsval = JUndefined | JNull | JString string | JNumber int | JBoolean bool

datatype 'a nullable = Undefined | Null | Value 'a

fun loose_eq_undefined :: "jsval \<Rightarrow> bool" where
  "loose_eq_undefined JUndefined = True"
| "loose_eq_undefined JNull = True"
| "loose_eq_undefined _ = False"

fun is_nullish :: "'a nullable \<Rightarrow> bool" where
  "is_nullish Undefined = True"
| "is_nullish Null = True"
| "is_nullish (Value _) = False"

subsection \<open>The container and the audience\<close>

text \<open>The enum \<open>ConnectionState\<close> of fluid-framework, with its four members.\<close>

datatype ConnectionState = Disconnected | EstablishingConnection | CatchingUp | Connected

text \<open>
  The calls that leave the component: one constructor for each setter callback of the
  props. The log of a run is the list of these calls in the order they were made.
\<close>

datatype setter_call =
    SetConnectionState string
  | SetSaved bool
  | SetCurrentUser string
  | SetFluidMembers "string list"

text \<open>
  The functions that \<open>Canvas\<close> hands to \<open>Tree.on\<close>, \<open>container.on\<close> and
  \<open>audience.on\<close>, defunctionalised. All three effects have the dependency list \<open>[]\<close>,
  so each closure keeps what it captured in the first render: \<open>TreeChanged\<close> the value
  of \<open>invalidations\<close>, \<open>UpdateMembers\<close> the prop \<open>currentUser\<close>. \<open>DirtyHandler\<close> is
  \<open>() => props.setSaved(false)\<close> and \<open>SavedHandler\<close> is \<open>() => props.setSaved(true)\<close>.
\<close>

datatype closure =
    TreeChanged real
  | UpdateConnectionState
  | DirtyHandler
  | SavedHandler
  | UpdateMembers string

type_synonym listeners = "(string \<times> closure) list"

text \<open>\<open>IMember\<close>; the component reads \<open>userId\<close> only.\<close>

record member =
  userId :: jsval

text \<open>
  \<open>getMembers()\<close> returns a JavaScript \<open>Map\<close>: insertion-ordered, one entry for a key.
  That is the type \<open>alist\<close> of association lists with distinct keys.
\<close>

record audience =
  getMyself :: "member nullable"
  getMembers :: "(string, member) alist nullable"
  audience_listeners :: listeners

record container =
  connectionState :: ConnectionState
  isDirty :: bool
  container_listeners :: listeners

subsection \<open>The conference tree\<close>

text \<open>
  \<open>Tree.key\<close> returns a number for a child of an array node and a string for a field
  of an object node.
\<close>

datatype tree_key = KeyNumber int | KeyString string

text \<open>A session node; the component reads its \<open>id\<close> only.\<close>

record Session =
  id_session :: string

text \<open>
  A \<open>Sessions\<close> node is an array of sessions, with the key the framework gave it
  in its parent. \<open>Conference.sessions\<close> is one such node and \<open>Conference.days\<close> is
  an array of them.
\<close>

record Sessions =
  node_key :: tree_key
  items :: "Session list"

record Conference =
  sessions :: Sessions
  days :: "Sessions list"

definition Tree_key :: "Sessions \<Rightarrow> tree_key" where
  "Tree_key node = node_key node"

subsection \<open>The world the handlers run in\<close>

text \<open>
  The shared objects that the props of \<open>Canvas\<close> refer to, the state of the component
  (\<open>invalidations\<close>), the listeners on the root of the conference tree, and the log of
  setter calls. The client session is never inspected, so its type is a parameter.
\<close>

record 'cs world =
  conferenceTree :: Conference
  sessionTree :: 'cs
  the_audience :: audience
  the_container :: container
  tree_listeners :: listeners
  invalidations :: real
  calls :: "setter_call list"

definition call :: "setter_call \<Rightarrow> 'cs world \<Rightarrow> 'cs world" where
  "call c w = w\<lparr>calls := calls w @ [c]\<rparr>"

subsection \<open>The handlers of Canvas\<close>

text \<open>
  \<open>updateConnectionState\<close>: an \<open>if\<close>/\<open>else if\<close> chain over the connection state of the
  container, in the order of the source.
\<close>

definition connection_label :: "ConnectionState \<Rightarrow> string option" where
  "connection_label s =
     (if s = Connected then Some ''connected''
      else if s = Disconnected then Some ''disconnected''
      else if s = EstablishingConnection then Some ''connecting''
      else if s = CatchingUp then Some ''catching up''
      else None)"

definition updateConnectionState :: "'cs world \<Rightarrow> 'cs world" where
  "updateConnectionState w =
     (case connection_label (connectionState (the_container w)) of
        Some l \<Rightarrow> call (SetConnectionState l) w
      | None \<Rightarrow> w)"

text \<open>
  \<open>updateMembers\<close>. The constant \<open>undefinedUserId\<close> is imported from
  \<open>utils/utils.js\<close>, so it is a parameter here. \<open>props.currentUser\<close> is a string, and
  \<open>==\<close> on two strings is equality. The test \<open>typeof user === "string"\<close> is the
  case distinction on \<open>JString\<close>.
\<close>

definition updateMembers :: "string \<Rightarrow> string \<Rightarrow> 'cs world \<Rightarrow> 'cs world" where
  "updateMembers undefinedUserId currentUser w =
     (case getMyself (the_audience w) of
        Undefined \<Rightarrow> w
      | Null \<Rightarrow> w
      | Value myself \<Rightarrow>
          if loose_eq_undefined (userId myself) then w
          else (case getMembers (the_audience w) of
            Undefined \<Rightarrow> w
          | Null \<Rightarrow> w
          | Value members \<Rightarrow>
              if connectionState (the_container w) \<noteq> Connected then w
              else
                let w1 =
                  (if currentUser = undefinedUserId then
                     (case userId myself of
                        JString user \<Rightarrow> call (SetCurrentUser user) w
                      | _ \<Rightarrow> w)
                   else w)
                in call (SetFluidMembers (map fst (DAList.impl_of members))) w1))"

text \<open>
  The tree-change handler: \<open>setInvalidations(invalidations + Math.random())\<close>, where
  \<open>invalidations\<close> is the captured value and \<open>rnd\<close> is what \<open>Math.random()\<close> returns.
\<close>

definition treeChanged :: "real \<Rightarrow> real \<Rightarrow> 'cs world \<Rightarrow> 'cs world" where
  "treeChanged captured rnd w = w\<lparr>invalidations := captured + rnd\<rparr>"

text \<open>Running a registered closure.\<close>

fun run_closure :: "string \<Rightarrow> real \<Rightarrow> closure \<Rightarrow> 'cs world \<Rightarrow> 'cs world" where
  "run_closure u rnd (TreeChanged captured) w = treeChanged captured rnd w"
| "run_closure u rnd UpdateConnectionState w = updateConnectionState w"
| "run_closure u rnd DirtyHandler w = call (SetSaved False) w"
| "run_closure u rnd SavedHandler w = call (SetSaved True) w"
| "run_closure u rnd (UpdateMembers currentUser) w = updateMembers u currentUser w"

subsection \<open>Event emitters\<close>

text \<open>
  \<open>on\<close> appends a listener, \<open>off\<close> removes the most recently added instance of
  it, and \<open>emit\<close> calls the listeners of an event in the order of registration, on
  the list as it was when the event was emitted. \<open>Tree.on\<close> returns a function that
  removes the listener it added. A listener is found by its code and by what it captured;
  two closures that agree in both behave alike.
\<close>

definition on :: "string \<Rightarrow> closure \<Rightarrow> listeners \<Rightarrow> listeners" where
  "on name fn ls = ls @ [(name, fn)]"

definition off :: "string \<Rightarrow> closure \<Rightarrow> listeners \<Rightarrow> listeners" where
  "off name fn ls = rev (remove1 (name, fn) (rev ls))"

definition listeners_of :: "string \<Rightarrow> listeners \<Rightarrow> closure list" where
  "listeners_of name ls = map snd (filter (\<lambda>l. fst l = name) ls)"

definition emit :: "string \<Rightarrow> real \<Rightarrow> string \<Rightarrow> listeners \<Rightarrow> 'cs world \<Rightarrow> 'cs world" where
  "emit u rnd name ls w = fold (run_closure u rnd) (listeners_of name ls) w"

definition container_on :: "string \<Rightarrow> closure \<Rightarrow> 'cs world \<Rightarrow> 'cs world" where
  "container_on name fn w =
     w\<lparr>the_container := (the_container w)
         \<lparr>container_listeners := on name fn (container_listeners (the_container w))\<rparr>\<rparr>"

definition audience_on :: "string \<Rightarrow> closure \<Rightarrow> 'cs world \<Rightarrow> 'cs world" where
  "audience_on name fn w =
     w\<lparr>the_audience := (the_audience w)
         \<lparr>audience_listeners := on name fn (audience_listeners (the_audience w))\<rparr>\<rparr>"

definition audience_off :: "string \<Rightarrow> closure \<Rightarrow> 'cs world \<Rightarrow> 'cs world" where
  "audience_off name fn w =
     w\<lparr>the_audience := (the_audience w)
         \<lparr>audience_listeners := off name fn (audience_listeners (the_audience w))\<rparr>\<rparr>"

definition Tree_on :: "string \<Rightarrow> closure \<Rightarrow> 'cs world \<Rightarrow> 'cs world" where
  "Tree_on name fn w = w\<lparr>tree_listeners := on name fn (tree_listeners w)\<rparr>"

definition Tree_unsubscribe :: "string \<Rightarrow> closure \<Rightarrow> 'cs world \<Rightarrow> 'cs world" where
  "Tree_unsubscribe name fn w = w\<lparr>tree_listeners := off name fn (tree_listeners w)\<rparr>"

subsection \<open>Mounting and unmounting Canvas\<close>

text \<open>
  What an effect returns is its cleanup. The first effect returns the \<open>unsubscribe\<close>
  of \<open>Tree.on\<close>, the third returns a function that calls \<open>audience.off\<close>, and the
  second returns nothing.
\<close>

datatype cleanup = Unsubscribe string closure | AudienceOff string closure

fun run_cleanup :: "cleanup \<Rightarrow> 'cs world \<Rightarrow> 'cs world" where
  "run_cleanup (Unsubscribe name fn) w = Tree_unsubscribe name fn w"
| "run_cleanup (AudienceOff name fn) w = audience_off name fn w"

text \<open>The first effect of \<open>Canvas\<close>, with \<open>captured\<close> the value of \<open>invalidations\<close> in the render.\<close>

definition effect_tree :: "real \<Rightarrow> 'cs world \<Rightarrow> 'cs world \<times> cleanup list" where
  "effect_tree captured w =
     (Tree_on ''treeChanged'' (TreeChanged captured) w,
      [Unsubscribe ''treeChanged'' (TreeChanged captured)])"

text \<open>The second effect, statement by statement.\<close>

definition effect_container :: "'cs world \<Rightarrow> 'cs world \<times> cleanup list" where
  "effect_container w =
     (let w1 = updateConnectionState w;
          w2 = call (SetSaved (\<not> isDirty (the_container w1))) w1;
          w3 = container_on ''connected'' UpdateConnectionState w2;
          w4 = container_on ''disconnected'' UpdateConnectionState w3;
          w5 = container_on ''dirty'' DirtyHandler w4;
          w6 = container_on ''saved'' SavedHandler w5;
          w7 = container_on ''disposed'' UpdateConnectionState w6
      in (w7, []))"

text \<open>The third effect.\<close>

definition effect_audience :: "string \<Rightarrow> 'cs world \<Rightarrow> 'cs world \<times> cleanup list" where
  "effect_audience currentUser w =
     (audience_on ''membersChanged'' (UpdateMembers currentUser) w,
      [AudienceOff ''membersChanged'' (UpdateMembers currentUser)])"

text \<open>
  Mounting: the first render initialises \<open>invalidations\<close> with \<open>useState(0)\<close>, then
  the three effects run in the order of the source. The result carries the cleanups in
  that order. Unmounting runs them.
\<close>

definition Canvas_mount :: "string \<Rightarrow> 'cs world \<Rightarrow> 'cs world \<times> cleanup list" where
  "Canvas_mount currentUser w =
     (let w0 = w\<lparr>invalidations := 0\<rparr>;
          (w1, c1) = effect_tree 0 w0;
          (w2, c2) = effect_container w1;
          (w3, c3) = effect_audience currentUser w2
      in (w3, c1 @ c2 @ c3))"

definition Canvas_unmount :: "cleanup list \<Rightarrow> 'cs world \<Rightarrow> 'cs world" where
  "Canvas_unmount cs w = fold run_cleanup cs w"

text \<open>
  A later render of the mounted component, with the prop \<open>currentUser\<close> the parent
  passes now. \<open>useState\<close> returns the state it has, and the three effects have the
  dependency list \<open>[]\<close> and do not run again, so the world stays as it is. The body
  builds a new \<open>updateMembers\<close> over the new props; this is the second component of the
  result, and nothing registers it.
\<close>

definition Canvas_rerender :: "string \<Rightarrow> 'cs world \<Rightarrow> 'cs world \<times> closure" where
  "Canvas_rerender currentUser w = (w, UpdateMembers currentUser)"

text \<open>
  The notifications that the framework delivers: an event on the root of the conference
  tree, on the container, or on the audience.
\<close>

datatype notification = TreeEvent string | ContainerEvent string | AudienceEvent string

fun deliver :: "string \<Rightarrow> real \<Rightarrow> notification \<Rightarrow> 'cs world \<Rightarrow> 'cs world" where
  "deliver u rnd (TreeEvent name) w = emit u rnd name (tree_listeners w) w"
| "deliver u rnd (ContainerEvent name) w =
     emit u rnd name (container_listeners (the_container w)) w"
| "deliver u rnd (AudienceEvent name) w =
     emit u rnd name (audience_listeners (the_audience w)) w"

subsection \<open>Numbers in strings\<close>

text \<open>
  \<open>"Day " + n\<close> converts the number to its decimal numeral. The keys of array children
  are indices, so the numbers here are integers.
\<close>

definition digit :: "nat \<Rightarrow> char" where
  "digit d = ''0123456789'' ! d"

function string_of_nat :: "nat \<Rightarrow> string" where
  "string_of_nat n =
     (if n < 10 then [digit n] else string_of_nat (n div 10) @ [digit (n mod 10)])"
  by pat_completeness auto
termination
  by (relation "measure (\<lambda>n. n)") auto

declare string_of_nat.simps [simp del]

definition Number_toString :: "int \<Rightarrow> string" where
  "Number_toString k =
     (if k < 0 then ''-'' @ string_of_nat (nat (- k)) else string_of_nat (nat k))"

text \<open>
  \<open>key + 1\<close> and \<open>"Day " + v\<close>. The cast \<open>as number\<close> does nothing at run time:
  on a number \<open>+ 1\<close> adds, on a string it appends \<open>"1"\<close>.
\<close>

fun plus_one :: "tree_key \<Rightarrow> tree_key" where
  "plus_one (KeyNumber k) = KeyNumber (k + 1)"
| "plus_one (KeyString s) = KeyString (s @ ''1'')"

fun concat_key :: "string \<Rightarrow> tree_key \<Rightarrow> string" where
  "concat_key s (KeyNumber k) = s @ Number_toString k"
| "concat_key s (KeyString t) = s @ t"

subsection \<open>Element trees\<close>

text \<open>The props of \<open>ConferenceView\<close> and of \<open>DaysView\<close>.\<close>

record 'cs view_props =
  conference :: Conference
  clientId :: string
  clientSession :: 'cs
  fluidMembers :: "string list"

text \<open>
  A JSX expression builds an element: the component and its props, not yet rendered.
  \<^item> \<open>Div className children\<close>;
  \<^item> \<open>Fragment children\<close>;
  \<^item> \<open>RootSessionWrapper key session clientId clientSession fluidMembers\<close>;
  \<^item> \<open>SessionsView key sessions title conference clientId clientSession fluidMembers\<close>,
    where \<open>key\<close> and \<open>conference\<close> are absent in one of the two places that build it;
  \<^item> \<open>DaysView props\<close>.
\<close>

datatype 'cs element =
    Div string "'cs element list"
  | Fragment "'cs element list"
  | RootSessionWrapper string Session string 'cs "string list"
  | SessionsView "tree_key option" Sessions string "Conference option" string 'cs "string list"
  | DaysView "'cs view_props"

text \<open>The loop of \<open>ConferenceView\<close> that fills \<open>sessionArray\<close>.\<close>

fun push_sessions ::
  "'cs view_props \<Rightarrow> Session list \<Rightarrow> 'cs element list \<Rightarrow> 'cs element list" where
  "push_sessions props [] sessionArray = sessionArray"
| "push_sessions props (i # rest) sessionArray =
     push_sessions props rest
       (sessionArray @
        [RootSessionWrapper (id_session i) i (clientId props) (clientSession props)
           (fluidMembers props)])"

definition sessionArray_of :: "'cs view_props \<Rightarrow> 'cs element list" where
  "sessionArray_of props = push_sessions props (items (sessions (conference props))) []"

text \<open>
  The \<open>return\<close> statement of \<open>ConferenceView\<close>, in the scope where \<open>sessionArray\<close> is
  bound. The spread \<open>{...props}\<close> comes after \<open>sessions\<close> and \<open>title\<close> and has neither of
  them, so it adds \<open>conference\<close>, \<open>clientId\<close>, \<open>clientSession\<close> and \<open>fluidMembers\<close>.
\<close>

definition ConferenceView_return :: "'cs view_props \<Rightarrow> 'cs element list \<Rightarrow> 'cs element" where
  "ConferenceView_return props sessionArray =
     Div ''flex flex-col h-full w-full content-start overflow-auto''
       [Div ''flex w-full p-4''
          [SessionsView None (sessions (conference props)) ''Unscheduled''
             (Some (conference props)) (clientId props) (clientSession props)
             (fluidMembers props)],
        Div ''flex flex-row h-full w-full flex-nowrap gap-4 p-4 content-start''
          [DaysView props],
        Div ''flex w-full h-24'' []]"

definition ConferenceView :: "'cs view_props \<Rightarrow> 'cs element" where
  "ConferenceView props = ConferenceView_return props (sessionArray_of props)"

text \<open>The loop of \<open>DaysView\<close> that fills \<open>dayArray\<close>, and the fragment it returns.\<close>

fun push_days ::
  "'cs view_props \<Rightarrow> Sessions list \<Rightarrow> 'cs element list \<Rightarrow> 'cs element list" where
  "push_days props [] dayArray = dayArray"
| "push_days props (day # rest) dayArray =
     push_days props rest
       (dayArray @
        [SessionsView (Some (Tree_key day)) day
           (concat_key ''Day '' (plus_one (Tree_key day))) None
           (clientId props) (clientSession props) (fluidMembers props)])"

definition DaysView_render :: "'cs view_props \<Rightarrow> 'cs element" where
  "DaysView_render props = Fragment (push_days props (days (conference props)) [])"

text \<open>
  The elements of a tree that stand for one session each: its \<open>RootSessionWrapper\<close>
  elements, in the order of the tree.
\<close>

fun session_elements :: "'cs element \<Rightarrow> 'cs element list" where
  "session_elements (Div c es) = concat (map session_elements es)"
| "session_elements (Fragment es) = concat (map session_elements es)"
| "session_elements (RootSessionWrapper k s c cs ms) = [RootSessionWrapper k s c cs ms]"
| "session_elements (SessionsView k ss t conf c cs ms) = []"
| "session_elements (DaysView props) = []"

text \<open>
  Modelled from the spec: the render function of \<open>SessionsView\<close>, which the file imports
  from \<open>react/sessions_ux.js\<close> and which is not part of it. The spec has it map over the
  sequence of sessions and instantiate one child view for each element, keyed by the
  identity the framework assigned to the element. The child view of a session is taken
  to be \<open>RootSessionWrapper\<close>, the per-session view that the file imports, with the
  \<open>id\<close> of the session as key and the props \<open>SessionsView\<close> received.
\<close>

definition SessionsView_render ::
  "Sessions \<Rightarrow> string \<Rightarrow> 'cs \<Rightarrow> string list \<Rightarrow> 'cs element list" where
  "SessionsView_render ss c cs ms =
     map (\<lambda>i. RootSessionWrapper (id_session i) i c cs ms) (items ss)"

text \<open>
  The per-session elements that rendering a returned tree produces for the session lists
  it shows itself: a \<open>SessionsView\<close> element of the tree is rendered as above. A
  \<open>DaysView\<close> element stays as it is; the days are a sequence of their own, and what
  \<open>DaysView\<close> renders for them is \<open>DaysView_render\<close>.
\<close>

fun rendered_session_elements :: "'cs element \<Rightarrow> 'cs element list" where
  "rendered_session_elements (Div c es) = concat (map rendered_session_elements es)"
| "rendered_session_elements (Fragment es) = concat (map rendered_session_elements es)"
| "rendered_session_elements (RootSessionWrapper k s c cs ms) =
     [RootSessionWrapper k s c cs ms]"
| "rendered_session_elements (SessionsView k ss t conf c cs ms) =
     SessionsView_render ss c cs ms"
| "rendered_session_elements (DaysView props) = []"

subsection \<open>Observing a run\<close>

text \<open>The setter calls made between a world and a later one.\<close>

definition new_calls :: "'cs world \<Rightarrow> 'cs world \<Rightarrow> setter_call list" where
  "new_calls w w' = drop (length (calls w)) (calls w')"

fun is_SetCurrentUser :: "setter_call \<Rightarrow> bool" where
  "is_SetCurrentUser (SetCurrentUser _) = True"
| "is_SetCurrentUser _ = False"

subsection \<open>A concrete document\<close>

text \<open>
  Two members, a conference with one unscheduled session and two days, a connected and
  saved container, nothing subscribed yet.
\<close>

definition alice :: member where
  "alice = \<lparr>userId = JString ''alice''\<rparr>"

definition bob :: member where
  "bob = \<lparr>userId = JString ''bob''\<rparr>"

definition example_members :: "(string, member) alist" where
  "example_members = DAList.update ''bob'' bob (DAList.update ''alice'' alice DAList.empty)"

definition example_conference :: Conference where
  "example_conference =
     \<lparr>sessions = \<lparr>node_key = KeyString ''sessions'', items = [\<lparr>id_session = ''s1''\<rparr>]\<rparr>,
      days = [\<lparr>node_key = KeyNumber 0, items = []\<rparr>,
              \<lparr>node_key = KeyNumber 1, items = [\<lparr>id_session = ''s2''\<rparr>]\<rparr>]\<rparr>"

definition example_world :: "unit world" where
  "example_world =
     \<lparr>conferenceTree = example_conference,
      sessionTree = (),
      the_audience =
        \<lparr>getMyself = Value alice, getMembers = Value example_members,
         audience_listeners = []\<rparr>,
      the_container =
        \<lparr>connectionState = Connected, isDirty = False, container_listeners = []\<rparr>,
      tree_listeners = [],
      invalidations = 0,
      calls = []\<rparr>"

definition example_props :: "unit view_props" where
  "example_props =
     \<lparr>conference = example_conference, clientId = ''alice'', clientSession = (),
      fluidMembers = [''alice'', ''bob'']\<rparr>"

text \<open>The same document with the container disconnected.\<close>

definition disconnected_world :: "unit world" where
  "disconnected_world =
     example_world\<lparr>the_container := (the_container example_world)
                     \<lparr>connectionState := Disconnected\<rparr>\<rparr>"

text \<open>The document after \<open>Canvas\<close> was mounted on it and unmounted again.\<close>

definition unmounted_world :: "unit world" where
  "unmounted_world =
     Canvas_unmount (snd (Canvas_mount ''alice'' example_world))
       (fst (Canvas_mount ''alice'' example_world))"

text \<open>
  The document after \<open>Canvas\<close> was mounted with the sentinel \<open>''nobody''\<close> as
  \<open>currentUser\<close>, the members changed once, and the parent rendered it again with the
  user id it got from \<open>setCurrentUser\<close>.
\<close>

definition resolved_world :: "unit world" where
  "resolved_world =
     fst (Canvas_rerender ''alice''
       (deliver ''nobody'' 0 (AudienceEvent ''membersChanged'')
          (fst (Canvas_mount ''nobody'' example_world))))"

text \<open>
  Two worlds that differ at most in the log of calls, which only grew, and in
  \<open>invalidations\<close>.
\<close>

definition unchanged_but_calls :: "'cs world \<Rightarrow> 'cs world \<Rightarrow> bool" where
  "unchanged_but_calls w w' \<longleftrightarrow>
     conferenceTree w' = conferenceTree w \<and> sessionTree w' = sessionTree w \<and>
     the_audience w' = the_audience w \<and> the_container w' = the_container w \<and>
     tree_listeners w' = tree_listeners w \<and>
     take (length (calls w)) (calls w') = calls w"

lemmas example_defs =
  example_world_def example_conference_def example_members_def alice_def bob_def
  example_props_def

section \<open>Properties\<close>

subsection \<open>The connection-state label\<close>

lemma call_calls: "calls (call c w) = calls w @ [c]"
  by (simp add: call_def)

text \<open>
  C1. For each of the four connection states \<open>updateConnectionState\<close> makes one call,
  \<open>setConnectionState\<close> with the label of that state: "connected", "disconnected",
  "connecting" or "catching up". It is a function of the connection state alone and
  changes nothing but the log of calls.
\<close>

theorem updateConnectionState_label:
  "updateConnectionState w =
     call (SetConnectionState
             (case connectionState (the_container w) of
                Connected \<Rightarrow> ''connected''
              | Disconnected \<Rightarrow> ''disconnected''
              | EstablishingConnection \<Rightarrow> ''connecting''
              | CatchingUp \<Rightarrow> ''catching up'')) w"
  by (cases "connectionState (the_container w)")
     (simp_all add: updateConnectionState_def connection_label_def)

subsection \<open>The membership handler\<close>

lemma new_calls_same: "new_calls w w = []"
  by (simp add: new_calls_def)

lemma new_calls_call: "new_calls w (call c w) = [c]"
  by (simp add: new_calls_def call_def)

lemma new_calls_call2: "new_calls w (call c (call d w)) = [d, c]"
  by (simp add: new_calls_def call_def)

text \<open>The four guards at the head of \<open>updateMembers\<close>: any of them returns at once.\<close>

lemma updateMembers_blocked:
  "is_nullish (getMyself (the_audience w)) \<or>
   (\<exists>myself. getMyself (the_audience w) = Value myself \<and> loose_eq_undefined (userId myself)) \<or>
   is_nullish (getMembers (the_audience w)) \<or>
   connectionState (the_container w) \<noteq> Connected
   \<Longrightarrow> updateMembers u cu w = w"
  by (auto simp add: updateMembers_def split: nullable.splits)

text \<open>Past the guards: at most the call of \<open>setCurrentUser\<close>, then \<open>setFluidMembers\<close>.\<close>

lemma updateMembers_passed:
  assumes "getMyself (the_audience w) = Value myself"
    and "\<not> loose_eq_undefined (userId myself)"
    and "getMembers (the_audience w) = Value members"
    and "connectionState (the_container w) = Connected"
  shows "new_calls w (updateMembers u cu w) =
           (if cu = u then (case userId myself of JString user \<Rightarrow> [SetCurrentUser user] | _ \<Rightarrow> [])
            else []) @ [SetFluidMembers (map fst (DAList.impl_of members))]"
proof (cases "userId myself")
qed (use assms in \<open>simp_all add: updateMembers_def new_calls_call new_calls_call2\<close>)

lemma updateMembers_cases:
  obtains (blocked) "updateMembers u cu w = w"
  | (passed) myself members where
      "getMyself (the_audience w) = Value myself"
      "\<not> loose_eq_undefined (userId myself)"
      "getMembers (the_audience w) = Value members"
      "connectionState (the_container w) = Connected"
proof (cases "getMyself (the_audience w)")
  case me: (Value myself)
  show ?thesis
  proof (cases "getMembers (the_audience w)")
    case mm: (Value members)
    show ?thesis
    proof (cases "loose_eq_undefined (userId myself) \<or> connectionState (the_container w) \<noteq> Connected")
      case True
      then have "updateMembers u cu w = w"
        using me by (intro updateMembers_blocked) auto
      then show ?thesis by (rule blocked)
    next
      case False
      then show ?thesis using me mm by (intro passed [of myself members]) auto
    qed
  qed (auto intro!: blocked updateMembers_blocked)
qed (auto intro!: blocked updateMembers_blocked)

text \<open>
  In one run of \<open>updateMembers\<close>, \<open>setCurrentUser\<close> is called at most once, and a call
  \<open>setCurrentUser(user)\<close> is made only if the \<open>currentUser\<close> that the closure captured
  is the sentinel \<open>undefinedUserId\<close> and the \<open>userId\<close> of the audience's own member is
  the string \<open>user\<close>.
\<close>

lemma updateMembers_setCurrentUser:
  "length (filter is_SetCurrentUser (new_calls w (updateMembers u cu w))) \<le> 1 \<and>
   (SetCurrentUser user \<in> set (new_calls w (updateMembers u cu w)) \<longrightarrow>
      cu = u \<and>
      (\<exists>myself. getMyself (the_audience w) = Value myself \<and> userId myself = JString user))"
proof (cases u cu w rule: updateMembers_cases)
  case blocked
  then show ?thesis by (simp add: new_calls_same)
next
  case (passed myself members)
  note eq = updateMembers_passed [OF passed]
  show ?thesis
  proof (cases "cu = u")
    case True
    show ?thesis
    proof (cases "userId myself")
    qed (use True passed(1) in \<open>simp_all add: eq\<close>)
  next
    case False
    then show ?thesis by (simp add: eq)
  qed
qed

lemma updateMembers_example:
  "new_calls example_world (updateMembers ''nobody'' ''nobody'' example_world) =
     [SetCurrentUser ''alice'', SetFluidMembers [''alice'', ''bob'']]"
  by (simp add: updateMembers_def example_defs new_calls_def call_def
        DAList.update.rep_eq DAList.empty.rep_eq)

text \<open>
  C8. The list that \<open>updateMembers\<close> passes to \<open>setFluidMembers\<close> has no duplicates: it
  is the list of keys of the member map of the audience.
\<close>

theorem fluid_members_distinct:
  "SetFluidMembers ms \<in> set (new_calls w (updateMembers u cu w)) \<Longrightarrow> distinct ms"
proof (cases u cu w rule: updateMembers_cases)
  case blocked
  assume "SetFluidMembers ms \<in> set (new_calls w (updateMembers u cu w))"
  with blocked show ?thesis by (simp add: new_calls_same)
next
  case (passed myself members)
  note eq = updateMembers_passed [OF passed]
  assume a: "SetFluidMembers ms \<in> set (new_calls w (updateMembers u cu w))"
  have "ms = map fst (DAList.impl_of members)"
  proof (cases "cu = u")
    case True
    show ?thesis
    proof (cases "userId myself")
    qed (use a True in \<open>simp_all add: eq\<close>)
  next
    case False
    with a show ?thesis by (simp add: eq)
  qed
  then show ?thesis by simp
qed

theorem fluid_members_distinct_witness:
  "SetFluidMembers [''alice'', ''bob''] \<in>
     set (new_calls example_world (updateMembers ''nobody'' ''nobody'' example_world)) \<and>
   distinct [''alice'', ''bob'']"
proof -
  have h: "SetFluidMembers [''alice'', ''bob''] \<in>
     set (new_calls example_world (updateMembers ''nobody'' ''nobody'' example_world))"
    by (simp add: updateMembers_example)
  from fluid_members_distinct [OF h] h show ?thesis by simp
qed

text \<open>
  C10. If the audience's own member is \<open>undefined\<close> (or \<open>null\<close>), or its \<open>userId\<close> is,
  or the member map is, or the container is not in the state \<open>Connected\<close>, then
  \<open>updateMembers\<close> returns at once: the world is as it was and no setter was called.
\<close>

theorem updateMembers_guards_return_early:
  "is_nullish (getMyself (the_audience w)) \<or>
   (\<exists>myself. getMyself (the_audience w) = Value myself \<and> loose_eq_undefined (userId myself)) \<or>
   is_nullish (getMembers (the_audience w)) \<or>
   connectionState (the_container w) \<noteq> Connected
   \<Longrightarrow> updateMembers u cu w = w \<and> new_calls w (updateMembers u cu w) = []"
  by (auto simp add: updateMembers_def new_calls_def split: nullable.splits)

theorem updateMembers_guards_return_early_witness:
  "connectionState (the_container disconnected_world) \<noteq> Connected \<and>
   updateMembers ''nobody'' ''nobody'' disconnected_world = disconnected_world \<and>
   new_calls disconnected_world
     (updateMembers ''nobody'' ''nobody'' disconnected_world) = []"
proof -
  have h: "connectionState (the_container disconnected_world) \<noteq> Connected"
    by (simp add: disconnected_world_def)
  then have d:
    "is_nullish (getMyself (the_audience disconnected_world)) \<or>
     (\<exists>myself. getMyself (the_audience disconnected_world) = Value myself \<and>
        loose_eq_undefined (userId myself)) \<or>
     is_nullish (getMembers (the_audience disconnected_world)) \<or>
     connectionState (the_container disconnected_world) \<noteq> Connected"
    by blast
  from updateMembers_guards_return_early [OF d] h show ?thesis by blast
qed

subsection \<open>What the handlers leave alone\<close>

lemma fold_related:
  assumes step: "\<And>c w. R w (f c w)"
    and refl: "\<And>w. R w w"
    and trans: "\<And>a b c. R a b \<Longrightarrow> R b c \<Longrightarrow> R a c"
  shows "R w (fold f cs w)"
proof (induction cs arbitrary: w)
  case Nil
  show ?case by (simp add: refl)
next
  case (Cons c cs)
  have "R w (f c w)" by (rule step)
  moreover have "R (f c w) (fold f cs (f c w))" by (rule Cons.IH)
  ultimately show ?case by (simp add: trans)
qed

lemma unchanged_refl: "unchanged_but_calls w w"
  by (simp add: unchanged_but_calls_def)

lemma unchanged_trans:
  assumes "unchanged_but_calls a b" and "unchanged_but_calls b c"
  shows "unchanged_but_calls a c"
proof -
  from assms obtain x y where "calls b = calls a @ x" "calls c = calls b @ y"
    unfolding unchanged_but_calls_def by (metis append_take_drop_id)
  then have "take (length (calls a)) (calls c) = calls a" by simp
  with assms show ?thesis by (simp add: unchanged_but_calls_def)
qed

lemma unchanged_call: "unchanged_but_calls w (call c w)"
  by (simp add: unchanged_but_calls_def call_def)

lemma unchanged_updateConnectionState: "unchanged_but_calls w (updateConnectionState w)"
  by (simp add: updateConnectionState_def unchanged_call unchanged_refl split: option.split)

lemma unchanged_updateMembers: "unchanged_but_calls w (updateMembers u cu w)"
proof (cases u cu w rule: updateMembers_cases)
  case blocked
  then show ?thesis by (simp add: unchanged_refl)
next
  case (passed myself members)
  have "unchanged_but_calls w
          (if cu = u
           then (case userId myself of JString user \<Rightarrow> call (SetCurrentUser user) w | _ \<Rightarrow> w)
           else w)"
    by (simp add: unchanged_call unchanged_refl split: jsval.split)
  then show ?thesis
    using passed
    by (auto simp add: updateMembers_def Let_def intro: unchanged_trans unchanged_call)
qed

lemma unchanged_treeChanged: "unchanged_but_calls w (treeChanged captured rnd w)"
  by (simp add: treeChanged_def unchanged_but_calls_def)

lemma unchanged_run_closure: "unchanged_but_calls w (run_closure u rnd c w)"
  by (cases c)
     (simp_all add: unchanged_call unchanged_updateConnectionState unchanged_updateMembers
        unchanged_treeChanged)

lemma unchanged_emit: "unchanged_but_calls w (emit u rnd name ls w)"
  unfolding emit_def
  by (rule fold_related [where R = unchanged_but_calls])
     (auto intro: unchanged_run_closure unchanged_refl unchanged_trans)

text \<open>
  C7. Whatever notification is delivered (a tree change, a container event, a
  membership change) and whatever handlers of \<open>Canvas\<close> are subscribed, the conference
  tree and the client-session tree are as before, and so are the audience, the container
  and the subscriptions. What may differ is \<open>invalidations\<close> and the log of setter
  calls, which keeps what it had and gets the new calls at its end.
\<close>

theorem handlers_leave_trees_unchanged:
  "conferenceTree (deliver u rnd n w) = conferenceTree w \<and>
   sessionTree (deliver u rnd n w) = sessionTree w \<and>
   the_audience (deliver u rnd n w) = the_audience w \<and>
   the_container (deliver u rnd n w) = the_container w \<and>
   tree_listeners (deliver u rnd n w) = tree_listeners w \<and>
   take (length (calls w)) (calls (deliver u rnd n w)) = calls w"
proof -
  have "unchanged_but_calls w (deliver u rnd n w)"
    by (cases n) (simp_all add: unchanged_emit)
  then show ?thesis by (simp add: unchanged_but_calls_def)
qed

subsection \<open>Subscriptions over the lifetime of the component\<close>

lemma container_updateConnectionState:
  "the_container (updateConnectionState w) = the_container w"
  by (simp add: updateConnectionState_def call_def split: option.split)

lemma off_on: "off name fn (on name fn ls) = ls"
  by (simp add: off_def on_def)

lemmas mount_defs =
  Canvas_mount_def effect_tree_def effect_container_def effect_audience_def Let_def
  container_on_def audience_on_def Tree_on_def on_def call_def

text \<open>
  C4, as the code has it. Mounting \<open>Canvas\<close> subscribes to five container
  notifications, \<open>connected\<close>, \<open>disconnected\<close>, \<open>dirty\<close>, \<open>saved\<close> and \<open>disposed\<close>, in
  this order and after whatever was subscribed before.
\<close>

theorem mount_container_subscriptions:
  "container_listeners (the_container (fst (Canvas_mount currentUser w))) =
     container_listeners (the_container w) @
       [(''connected'', UpdateConnectionState), (''disconnected'', UpdateConnectionState),
        (''dirty'', DirtyHandler), (''saved'', SavedHandler),
        (''disposed'', UpdateConnectionState)]"
  by (simp add: mount_defs container_updateConnectionState)

text \<open>
  C4, as stated, asks for four container notifications. On the example document the
  mount subscribes to five.
\<close>

theorem mount_subscribes_five_not_four:
  "map fst (container_listeners (the_container (fst (Canvas_mount ''alice'' example_world)))) =
     [''connected'', ''disconnected'', ''dirty'', ''saved'', ''disposed''] \<and>
   length (container_listeners (the_container (fst (Canvas_mount ''alice'' example_world))))
     \<noteq> 4"
  by (simp add: mount_defs container_updateConnectionState example_world_def)

text \<open>The mount on the example document, and the document after the unmount.\<close>

lemma Canvas_mount_example:
  "Canvas_mount ''alice'' example_world =
    (example_world
      \<lparr>the_audience := (the_audience example_world)
          \<lparr>audience_listeners := [(''membersChanged'', UpdateMembers ''alice'')]\<rparr>,
       the_container := (the_container example_world)
          \<lparr>container_listeners :=
             [(''connected'', UpdateConnectionState), (''disconnected'', UpdateConnectionState),
              (''dirty'', DirtyHandler), (''saved'', SavedHandler),
              (''disposed'', UpdateConnectionState)]\<rparr>,
       tree_listeners := [(''treeChanged'', TreeChanged 0)],
       calls := [SetConnectionState ''connected'', SetSaved True]\<rparr>,
     [Unsubscribe ''treeChanged'' (TreeChanged 0),
      AudienceOff ''membersChanged'' (UpdateMembers ''alice'')])"
  by (simp add: mount_defs updateConnectionState_def connection_label_def example_world_def)

lemma unmounted_world_eq:
  "unmounted_world =
     example_world
      \<lparr>the_container := (the_container example_world)
          \<lparr>container_listeners :=
             [(''connected'', UpdateConnectionState), (''disconnected'', UpdateConnectionState),
              (''dirty'', DirtyHandler), (''saved'', SavedHandler),
              (''disposed'', UpdateConnectionState)]\<rparr>,
       calls := [SetConnectionState ''connected'', SetSaved True]\<rparr>"
  unfolding unmounted_world_def Canvas_mount_example
  by (simp add: Canvas_unmount_def Tree_unsubscribe_def audience_off_def off_def
        example_world_def)

text \<open>
  On any document, the unmount takes the tree listener and the audience listener of the
  mount away again, and leaves the five container listeners where they are.
\<close>

lemma unmount_listeners:
  "tree_listeners
     (Canvas_unmount (snd (Canvas_mount cu w)) (fst (Canvas_mount cu w))) = tree_listeners w"
  "audience_listeners (the_audience
     (Canvas_unmount (snd (Canvas_mount cu w)) (fst (Canvas_mount cu w)))) =
   audience_listeners (the_audience w)"
  "container_listeners (the_container
     (Canvas_unmount (snd (Canvas_mount cu w)) (fst (Canvas_mount cu w)))) =
   container_listeners (the_container (fst (Canvas_mount cu w)))"
  by (simp_all add: Canvas_mount_def effect_tree_def effect_container_def effect_audience_def
        Let_def container_on_def audience_on_def Tree_on_def call_def Canvas_unmount_def
        Tree_unsubscribe_def audience_off_def off_on updateConnectionState_def
        split: option.split)

text \<open>The document of the stale closure, computed.\<close>

lemma mounted_nobody:
  "fst (Canvas_mount ''nobody'' example_world) =
    example_world
      \<lparr>the_audience := (the_audience example_world)
          \<lparr>audience_listeners := [(''membersChanged'', UpdateMembers ''nobody'')]\<rparr>,
       the_container := (the_container example_world)
          \<lparr>container_listeners :=
             [(''connected'', UpdateConnectionState), (''disconnected'', UpdateConnectionState),
              (''dirty'', DirtyHandler), (''saved'', SavedHandler),
              (''disposed'', UpdateConnectionState)]\<rparr>,
       tree_listeners := [(''treeChanged'', TreeChanged 0)],
       calls := [SetConnectionState ''connected'', SetSaved True]\<rparr>"
  by (simp add: mount_defs updateConnectionState_def connection_label_def example_world_def)

lemma resolved_world_eq:
  "resolved_world =
    example_world
      \<lparr>the_audience := (the_audience example_world)
          \<lparr>audience_listeners := [(''membersChanged'', UpdateMembers ''nobody'')]\<rparr>,
       the_container := (the_container example_world)
          \<lparr>container_listeners :=
             [(''connected'', UpdateConnectionState), (''disconnected'', UpdateConnectionState),
              (''dirty'', DirtyHandler), (''saved'', SavedHandler),
              (''disposed'', UpdateConnectionState)]\<rparr>,
       tree_listeners := [(''treeChanged'', TreeChanged 0)],
       calls := [SetConnectionState ''connected'', SetSaved True,
                 SetCurrentUser ''alice'', SetFluidMembers [''alice'', ''bob'']]\<rparr>"
  unfolding resolved_world_def mounted_nobody
  by (simp add: Canvas_rerender_def emit_def listeners_of_def updateMembers_def call_def
        example_defs DAList.update.rep_eq DAList.empty.rep_eq)

text \<open>
  C3 asks that \<open>setCurrentUser\<close> is called only when the prop \<open>currentUser\<close> is the
  sentinel. Take \<open>''nobody''\<close> for the sentinel. The component is mounted with it, the
  first membership change resolves the user to \<open>''alice''\<close>, and the parent renders the
  component again with \<open>currentUser = ''alice''\<close>. The handler that this render builds
  would call \<open>setFluidMembers\<close> only. The audience still holds the handler of the first
  render, which reads the sentinel it captured, so the next membership change calls
  \<open>setCurrentUser(''alice'')\<close> again although the prop is no longer the sentinel.
\<close>

theorem setCurrentUser_called_with_resolved_prop:
  "snd (Canvas_rerender ''alice''
       (deliver ''nobody'' 0 (AudienceEvent ''membersChanged'')
          (fst (Canvas_mount ''nobody'' example_world)))) = UpdateMembers ''alice'' \<and>
   ''alice'' \<noteq> ''nobody'' \<and>
   listeners_of ''membersChanged'' (audience_listeners (the_audience resolved_world)) =
     [UpdateMembers ''nobody''] \<and>
   new_calls resolved_world
     (deliver ''nobody'' 0 (AudienceEvent ''membersChanged'') resolved_world) =
     [SetCurrentUser ''alice'', SetFluidMembers [''alice'', ''bob'']] \<and>
   new_calls resolved_world
     (run_closure ''nobody'' 0 (UpdateMembers ''alice'') resolved_world) =
     [SetFluidMembers [''alice'', ''bob'']]"
  by (simp add: resolved_world_eq Canvas_rerender_def emit_def listeners_of_def
        updateMembers_def call_def new_calls_def example_defs
        DAList.update.rep_eq DAList.empty.rep_eq)

text \<open>
  C2 asks that no setter is called after the unmount. On the example document, after
  mount and unmount, the tree and the audience have no listener left, and yet the
  container event \<open>dirty\<close> calls \<open>setSaved(false)\<close> and the container event
  \<open>disconnected\<close> calls \<open>setConnectionState\<close>: the second effect returns no cleanup.
\<close>

theorem setter_called_after_unmount:
  "tree_listeners unmounted_world = [] \<and>
   audience_listeners (the_audience unmounted_world) = [] \<and>
   new_calls unmounted_world
     (deliver ''nobody'' 0 (ContainerEvent ''dirty'') unmounted_world) = [SetSaved False] \<and>
   new_calls unmounted_world
     (deliver ''nobody'' 0 (ContainerEvent ''disconnected'') unmounted_world) =
       [SetConnectionState ''connected'']"
  by (simp add: unmounted_world_eq example_world_def emit_def listeners_of_def new_calls_def
        call_def updateConnectionState_def connection_label_def)

subsection \<open>The element trees\<close>

lemma push_sessions_map:
  "push_sessions props xs acc =
     acc @ map (\<lambda>i. RootSessionWrapper (id_session i) i (clientId props) (clientSession props)
                  (fluidMembers props)) xs"
  by (induction xs arbitrary: acc) simp_all

text \<open>
  The array \<open>sessionArray\<close> that \<open>ConferenceView\<close> fills and does not return: one
  \<open>RootSessionWrapper\<close> for each session of the list, in the order of the list.
\<close>

lemma sessionArray_of_map:
  "sessionArray_of props =
     map (\<lambda>i. RootSessionWrapper (id_session i) i (clientId props) (clientSession props)
                  (fluidMembers props)) (items (sessions (conference props)))"
  by (simp add: sessionArray_of_def push_sessions_map)


text \<open>The same for no session, one session and three sessions.\<close>

lemma ConferenceView_renders_sessions_examples:
  "rendered_session_elements
     (ConferenceView (example_props\<lparr>conference :=
        example_conference\<lparr>sessions :=
          \<lparr>node_key = KeyString ''sessions'', items = []\<rparr>\<rparr>\<rparr>)) = []"
  "rendered_session_elements (ConferenceView example_props) =
     [RootSessionWrapper ''s1'' \<lparr>id_session = ''s1''\<rparr> ''alice'' () [''alice'', ''bob'']]"
  "rendered_session_elements
     (ConferenceView (example_props\<lparr>conference :=
        example_conference\<lparr>sessions := \<lparr>node_key = KeyString ''sessions'',
          items = [\<lparr>id_session = ''b''\<rparr>, \<lparr>id_session = ''a''\<rparr>,
                   \<lparr>id_session = ''c''\<rparr>]\<rparr>\<rparr>\<rparr>)) =
     [RootSessionWrapper ''b'' \<lparr>id_session = ''b''\<rparr> ''alice'' () [''alice'', ''bob''],
      RootSessionWrapper ''a'' \<lparr>id_session = ''a''\<rparr> ''alice'' () [''alice'', ''bob''],
      RootSessionWrapper ''c'' \<lparr>id_session = ''c''\<rparr> ''alice'' () [''alice'', ''bob'']]"
  by (simp_all add: ConferenceView_def ConferenceView_return_def SessionsView_render_def
        example_defs)

lemma push_days_map:
  "push_days props ds acc =
     acc @ map (\<lambda>day. SessionsView (Some (Tree_key day)) day
           (concat_key ''Day '' (plus_one (Tree_key day))) None
           (clientId props) (clientSession props) (fluidMembers props)) ds"
  by (induction ds arbitrary: acc) simp_all

lemma day_title:
  "concat_key ''Day '' (plus_one key) =
     (case key of KeyNumber k \<Rightarrow> ''Day '' @ Number_toString (k + 1)
               | KeyString s \<Rightarrow> ''Day '' @ s @ ''1'')"
  by (cases key) simp_all

text \<open>
  C6. \<open>DaysView\<close> returns a fragment with one \<open>SessionsView\<close> for each day, in the order
  of the days. The child of a day has the key \<open>Tree.key(day)\<close> and shows the sessions
  of that day; for a key that is the number \<open>k\<close> its title is "Day " followed by the
  numeral of \<open>k + 1\<close>.
\<close>

theorem DaysView_one_child_per_day:
  "DaysView_render props =
     Fragment (map (\<lambda>day. SessionsView (Some (Tree_key day)) day
           (case Tree_key day of KeyNumber k \<Rightarrow> ''Day '' @ Number_toString (k + 1)
               | KeyString s \<Rightarrow> ''Day '' @ s @ ''1'') None
           (clientId props) (clientSession props) (fluidMembers props))
        (days (conference props)))"
  by (simp add: DaysView_render_def push_days_map day_title)

lemma Number_toString_examples:
  "Number_toString 0 = ''0''" "Number_toString 1 = ''1''" "Number_toString 12 = ''12''"
  "Number_toString 305 = ''305''" "Number_toString (- 7) = ''-7''"
  by (simp_all add: Number_toString_def string_of_nat.simps digit_def)

lemma DaysView_example:
  "DaysView_render example_props =
     Fragment
       [SessionsView (Some (KeyNumber 0)) \<lparr>node_key = KeyNumber 0, items = []\<rparr> ''Day 1'' None
          ''alice'' () [''alice'', ''bob''],
        SessionsView (Some (KeyNumber 1))
          \<lparr>node_key = KeyNumber 1, items = [\<lparr>id_session = ''s2''\<rparr>]\<rparr> ''Day 2'' None
          ''alice'' () [''alice'', ''bob'']]"
  by (simp add: DaysView_render_def example_defs Tree_key_def Number_toString_def
        string_of_nat.simps digit_def)

text \<open>
  C9. The tree that \<open>ConferenceView\<close> returns does not depend on \<open>sessionArray\<close>. It is
  a \<open>div\<close> of three: a \<open>div\<close> around one \<open>SessionsView\<close> titled "Unscheduled" over the
  whole sessions node, a \<open>div\<close> around one \<open>DaysView\<close>, and an empty \<open>div\<close>. There is
  no \<open>RootSessionWrapper\<close> in it.
\<close>

theorem ConferenceView_ignores_sessionArray:
  "ConferenceView_return props sessionArray = ConferenceView_return props sessionArray' \<and>
   ConferenceView props =
     Div ''flex flex-col h-full w-full content-start overflow-auto''
       [Div ''flex w-full p-4''
          [SessionsView None (sessions (conference props)) ''Unscheduled''
             (Some (conference props)) (clientId props) (clientSession props)
             (fluidMembers props)],
        Div ''flex flex-row h-full w-full flex-nowrap gap-4 p-4 content-start''
          [DaysView props],
        Div ''flex w-full h-24'' []] \<and>
   session_elements (ConferenceView props) = []"
  by (simp add: ConferenceView_def ConferenceView_return_def)

end
